theory Spec2Isabelle
  imports Complex_Main
begin

section \<open>Strings\<close>

text \<open>
  A JavaScript string is modelled as a \<^typ>\<open>string\<close> whose characters are the code
  units \<open>0 .. 255\<close> (ISO Latin-1).  On that range \<open>toLowerCase\<close>, \<open>trim\<close> and the
  regular expression class \<open>\s\<close> are exactly the functions below; the only
  non-ASCII character of the source, the n-tilde of one heat trigger, is code
  unit \<open>0xF1\<close>.
\<close>

definition lowerChar :: "char \<Rightarrow> char" where
  "lowerChar c =
     (let n = (of_char c :: nat)
      in if (65 \<le> n \<and> n \<le> 90) \<or> (192 \<le> n \<and> n \<le> 222 \<and> n \<noteq> 215)
         then char_of (n + 32) else c)"

definition toLowerCase :: "string \<Rightarrow> string" where
  "toLowerCase s = map lowerChar s"

text \<open>White space of \<open>String.prototype.trim\<close> and of \<open>\s\<close>: TAB, LF, VT, FF, CR, SP, NBSP.\<close>

definition isSpace :: "char \<Rightarrow> bool" where
  "isSpace c = (of_char c \<in> {9, 10, 11, 12, 13, 32, 160 :: nat})"

definition trim :: "string \<Rightarrow> string" where
  "trim s = rev (dropWhile isSpace (rev (dropWhile isSpace s)))"

text \<open>
  \<open>s.includes(k)\<close> on strings: \<open>k\<close> occurs in \<open>s\<close> as a contiguous substring
  (\<open>includes\<close> is a keyword of Isabelle, hence the name).
\<close>

fun startsWith :: "string \<Rightarrow> string \<Rightarrow> bool" where
  "startsWith s [] = True"
| "startsWith [] (k # ks) = False"
| "startsWith (c # cs) (k # ks) = (c = k \<and> startsWith cs ks)"

fun strIncludes :: "string \<Rightarrow> string \<Rightarrow> bool" where
  "strIncludes [] k = (k = [])"
| "strIncludes (c # cs) k = (startsWith (c # cs) k \<or> strIncludes cs k)"

text \<open>\<open>xs.join(sep)\<close> on an array of strings.\<close>

fun join :: "string \<Rightarrow> string list \<Rightarrow> string" where
  "join sep [] = []"
| "join sep [x] = x"
| "join sep (x # y # ys) = x @ sep @ join sep (y # ys)"

text \<open>
  \<open>s.split(/\s+/)\<close>: the pieces between maximal runs of white space, an empty piece
  before a leading run and after a trailing one; the empty string gives one empty piece.
  The flag says that the previous character was white space.
\<close>

fun splitRun :: "bool \<Rightarrow> string \<Rightarrow> string \<Rightarrow> string list" where
  "splitRun inRun cur [] = [rev cur]"
| "splitRun inRun cur (c # cs) =
     (if isSpace c
      then (if inRun then splitRun True cur cs else rev cur # splitRun True [] cs)
      else splitRun False (c # cur) cs)"

definition splitWhitespace :: "string \<Rightarrow> string list" where
  "splitWhitespace s = splitRun False [] s"

section \<open>Menu items and the preference filter\<close>

text \<open>
  A menu item as \<open>getMenuItems\<close> builds it, with the fields the filter and the scorer
  read.  A missing \<open>name\<close> or \<open>description\<close> is the empty string and a missing list is
  the empty list, which is what the source's defaults (\<open>= ''\<close>, \<open>= []\<close>, \<open>|| []\<close>) make
  of them; \<open>available\<close> is \<open>False\<close> exactly when the source's test
  \<open>item.available === false\<close> succeeds.
\<close>

record menu_item =
  name :: string
  description :: string
  ingredients :: "string list"
  allergens :: "string list"
  dietary_labels :: "string list"
  available :: bool

text \<open>The callback of \<open>dietaryRestrictions.every\<close> in \<open>filterItemsByPreferences\<close>.\<close>

definition meetsRestriction :: "string list \<Rightarrow> string \<Rightarrow> bool" where
  "meetsRestriction itemLabels restriction =
     (let restrictionLower = toLowerCase restriction
      in if restrictionLower \<in> set itemLabels then True
         else if restrictionLower = ''vegetarian'' \<and> ''vegan'' \<in> set itemLabels then True
         else if restrictionLower = ''pescetarian'' \<and>
                 (''vegan'' \<in> set itemLabels \<or> ''vegetarian'' \<in> set itemLabels) then True
         else False)"

text \<open>The callback of \<open>items.filter\<close>: the three exclusion tests in the source's order.\<close>

definition keepItem :: "string list \<Rightarrow> string list \<Rightarrow> menu_item \<Rightarrow> bool" where
  "keepItem userAllergens dietaryRestrictions item =
     (if userAllergens \<noteq> [] \<and>
           list_ex (\<lambda>a. toLowerCase a \<in> set (map toLowerCase (allergens item))) userAllergens
      then False
      else if dietaryRestrictions \<noteq> [] \<and>
           \<not> list_all (meetsRestriction (map toLowerCase (dietary_labels item))) dietaryRestrictions
      then False
      else if \<not> available item then False
      else True)"

definition filterItemsByPreferences ::
    "menu_item list \<Rightarrow> string list \<Rightarrow> string list \<Rightarrow> menu_item list" where
  "filterItemsByPreferences items userAllergens dietaryRestrictions =
     filter (keepItem userAllergens dietaryRestrictions) items"

section \<open>The attribute taxonomy\<close>

text \<open>
  The keyword tables of \<open>taste-parser.js\<close>.  \<open>Object.entries\<close> visits the keys of
  an object literal in the order they are written, so each table is the list of its
  entries in that order.
\<close>

type_synonym taxonomy = "(string \<times> string list) list"

definition CUISINE_KEYWORDS :: taxonomy where
  "CUISINE_KEYWORDS =
    [(''italian'', [''pizza'', ''pasta'', ''risotto'', ''gelato'', ''italian'']),
     (''mexican'', [''tacos'', ''burrito'', ''enchilada'', ''mexican'', ''salsa'', ''quesadilla'']),
     (''asian'', [''noodle'', ''ramen'', ''pho'', ''pad thai'', ''curry'', ''stir fry'', ''sushi'',
                  ''asian'']),
     (''indian'', [''curry'', ''tikka'', ''naan'', ''biryani'', ''indian'', ''dosa'']),
     (''japanese'', [''sushi'', ''ramen'', ''tempura'', ''teriyaki'', ''japanese'']),
     (''thai'', [''pad thai'', ''thai'', ''curry'', ''coconut'', ''lemongrass'']),
     (''american'', [''burger'', ''bbq'', ''fried'', ''steak'', ''wings'', ''american'']),
     (''mediterranean'', [''greek'', ''falafel'', ''hummus'', ''olive'', ''mediterranean'']),
     (''french'', [''french'', ''coq au vin'', ''duck'', ''bourguignon''])]"

definition HEAT_KEYWORDS :: taxonomy where
  "HEAT_KEYWORDS =
    [(''spicy'', [''spicy'', ''hot'', ''fiery'', ''jalape'' @ [CHR 0xF1] @ ''o'', ''habanero'',
                  ''sriracha'', ''chili'']),
     (''mild'', [''mild'', ''light'', ''gentle'', ''not spicy'', ''family friendly'']),
     (''medium'', [''medium'', ''some heat'', ''moderately spicy''])]"

definition DIETARY_KEYWORDS :: taxonomy where
  "DIETARY_KEYWORDS =
    [(''vegan'', [''vegan'', ''no meat'', ''no animal'', ''plant based'']),
     (''vegetarian'', [''vegetarian'', ''no meat'', ''meatless'']),
     (''pescetarian'', [''pescetarian'', ''fish ok'', ''seafood ok'']),
     (''keto'', [''keto'', ''low carb'', ''protein heavy'']),
     (''paleo'', [''paleo'', ''primal'']),
     (''glutenfree'', [''gluten free'', ''gluten-free'', ''gf'', ''celiac'']),
     (''halal'', [''halal'']),
     (''kosher'', [''kosher''])]"

definition HEALTH_GOALS_KEYWORDS :: taxonomy where
  "HEALTH_GOALS_KEYWORDS =
    [(''heart-healthy'', [''heart healthy'', ''low sodium'', ''low fat'', ''cardiac'',
                          ''healthy heart'']),
     (''low-sodium'', [''low sodium'', ''no salt'', ''salt free'']),
     (''weight-loss'', [''light'', ''healthy'', ''low calorie'', ''diet'', ''weight loss'']),
     (''muscle-building'', [''protein'', ''high protein'', ''muscle'', ''strength'',
                            ''bodybuilding'']),
     (''diabetes-friendly'', [''diabetes'', ''low sugar'', ''no sugar'', ''sugar free''])]"

definition FOOD_TYPE_KEYWORDS :: taxonomy where
  "FOOD_TYPE_KEYWORDS =
    [(''tacos'', [''tacos'', ''taco'']),
     (''noodles'', [''noodle'', ''noodles'', ''ramen'', ''pho'', ''pad thai'']),
     (''pizza'', [''pizza'', ''pie'']),
     (''burger'', [''burger'', ''burgers'', ''beef'']),
     (''fish'', [''fish'', ''seafood'', ''salmon'', ''tuna'', ''halibut'']),
     (''chicken'', [''chicken'', ''poultry'']),
     (''steak'', [''steak'', ''beef'', ''meat'']),
     (''salad'', [''salad'', ''greens'', ''vegetables'']),
     (''soup'', [''soup'', ''broth'', ''chowder'']),
     (''sandwich'', [''sandwich'', ''sub'', ''wrap''])]"

definition PREP_KEYWORDS :: taxonomy where
  "PREP_KEYWORDS =
    [(''grilled'', [''grilled'', ''charred'']),
     (''fried'', [''fried'', ''deep fried'', ''crispy'']),
     (''baked'', [''baked'', ''roasted'']),
     (''raw'', [''raw'', ''fresh'']),
     (''steamed'', [''steamed'', ''boiled''])]"

section \<open>The query parser\<close>

text \<open>
  The result of parsing.  The set fields are arrays in the source, \<open>heat\<close> is a string
  and \<open>confidence\<close> a number (\<open>0\<close> or \<open>0.5\<close> from the keyword parser, both exact).
  The field \<open>ingredients\<close> of the source is \<open>ingredients_taste\<close> here, the name being
  taken by the menu item's field.
\<close>

record taste_attributes =
  cuisines :: "string list"
  heat :: string
  dietary :: "string list"
  healthGoals :: "string list"
  foodTypes :: "string list"
  prepMethods :: "string list"
  ingredients_taste :: "string list"
  restrictions :: "string list"
  confidence :: rat

text \<open>\<open>keywords.some(kw => query.includes(kw))\<close>.\<close>

definition someKeyword :: "string \<Rightarrow> string list \<Rightarrow> bool" where
  "someKeyword query keywords = list_ex (\<lambda>kw. strIncludes query kw) keywords"

text \<open>
  The loop \<open>for (const [tag, keywords] of Object.entries(TABLE)) if (...) result.f.push(tag)\<close>:
  the tags whose entry has a trigger in the query, in the order of the table.
\<close>

fun detectTags :: "taxonomy \<Rightarrow> string \<Rightarrow> string list" where
  "detectTags [] query = []"
| "detectTags ((tag, keywords) # rest) query =
     (if someKeyword query keywords then tag # detectTags rest query
      else detectTags rest query)"

text \<open>
  The heat loop assigns \<open>result.heat\<close> at the first entry with a trigger in the query
  and leaves the loop (\<open>break\<close>); with no such entry \<open>result.heat\<close> keeps its value.
\<close>

fun detectHeat :: "taxonomy \<Rightarrow> string \<Rightarrow> string \<Rightarrow> string" where
  "detectHeat [] query current = current"
| "detectHeat ((level, keywords) # rest) query current =
     (if someKeyword query keywords then level else detectHeat rest query current)"

text \<open>\<open>Object.values(...).concat(...)....flat()\<close>: every trigger phrase of every table.\<close>

definition allKeywords :: "string list" where
  "allKeywords =
     concat (map snd CUISINE_KEYWORDS @ map snd HEAT_KEYWORDS @ map snd DIETARY_KEYWORDS @
             map snd HEALTH_GOALS_KEYWORDS @ map snd FOOD_TYPE_KEYWORDS @ map snd PREP_KEYWORDS)"

definition parseWithKeywords :: "string \<Rightarrow> taste_attributes" where
  "parseWithKeywords tasteQuery =
     (let query = toLowerCase tasteQuery;
          wordsOfQuery = splitWhitespace query
      in \<lparr> cuisines = detectTags CUISINE_KEYWORDS query,
           heat = detectHeat HEAT_KEYWORDS query ''none'',
           dietary = detectTags DIETARY_KEYWORDS query,
           healthGoals = detectTags HEALTH_GOALS_KEYWORDS query,
           foodTypes = detectTags FOOD_TYPE_KEYWORDS query,
           prepMethods = detectTags PREP_KEYWORDS query,
           ingredients_taste =
             filter (\<lambda>w. length w > 2 \<and> w \<notin> set allKeywords \<and> w \<noteq> ''and'' \<and> w \<noteq> ''with'')
               wordsOfQuery,
           restrictions = [],
           confidence = 1 / 2 \<rparr>)"

text \<open>The value \<open>parseTasteQuery\<close> returns for an absent or blank query.\<close>

definition emptyAttributes :: taste_attributes where
  "emptyAttributes =
     \<lparr> cuisines = [], heat = ''none'', dietary = [], healthGoals = [], foodTypes = [],
       prepMethods = [], ingredients_taste = [], restrictions = [], confidence = 0 \<rparr>"

text \<open>
  The argument of \<open>parseTasteQuery\<close> is whatever the request body holds: \<open>Missing\<close>
  stands for \<open>undefined\<close>, \<open>null\<close> and the other falsy values that are not strings,
  \<open>NonString\<close> for a truthy value that is not a string, on which
  \<open>tasteQuery.trim()\<close> throws a \<open>TypeError\<close>.
\<close>

datatype query_arg = Missing | Text string | NonString

datatype js_error = TypeError

text \<open>
  \<open>parseTasteQuery\<close>.  The first parameter is the configuration flag
  \<open>USE_LOCAL_GEMMA === 'true'\<close>; the second is the outcome of \<open>parseWithGemma\<close> on
  the query, an external service call whose \<open>try/catch\<close> turns every failure into
  \<open>null\<close> (\<open>None\<close>).
\<close>

definition parseTasteQuery ::
    "bool \<Rightarrow> (string \<Rightarrow> taste_attributes option) \<Rightarrow> query_arg \<Rightarrow> js_error + taste_attributes" where
  "parseTasteQuery useLocalGemma parseWithGemma arg =
     (case arg of
        Missing \<Rightarrow> Inr emptyAttributes
      | NonString \<Rightarrow> Inl TypeError
      | Text tasteQuery \<Rightarrow>
          if tasteQuery = [] \<or> length (trim tasteQuery) = 0 then Inr emptyAttributes
          else if useLocalGemma then
            (case parseWithGemma tasteQuery of
               Some gemmaResult \<Rightarrow> Inr gemmaResult
             | None \<Rightarrow> Inr (parseWithKeywords tasteQuery))
          else Inr (parseWithKeywords tasteQuery))"

section \<open>The relevance scorer\<close>

text \<open>
  The third argument of \<open>scoreMealAgainstTaste\<close>; a missing list is the empty list,
  which the source's guards \<open>xs && xs.length > 0\<close> treat alike.
\<close>

record user_preferences =
  allergies :: "string list"
  dietaryRestrictions :: "string list"

definition itemText :: "menu_item \<Rightarrow> string" where
  "itemText mealItem =
     toLowerCase (name mealItem @ '' '' @ description mealItem @ '' '' @
                  join '' '' (ingredients mealItem))"

text \<open>\<open>tags.forEach(tag => { if (text.includes(tag)) score += points; })\<close>.\<close>

definition addMatches :: "string \<Rightarrow> int \<Rightarrow> string list \<Rightarrow> int \<Rightarrow> int" where
  "addMatches text points tags score =
     foldl (\<lambda>s tag. if strIncludes text tag then s + points else s) score tags"

text \<open>The value of \<open>score\<close> just before \<open>return Math.max(0, score)\<close>.\<close>

definition rawScore :: "menu_item \<Rightarrow> taste_attributes \<Rightarrow> user_preferences \<Rightarrow> int" where
  "rawScore mealItem tasteAttributes userPreferences =
     (let text = itemText mealItem;
          s0 = 0;
          s1 = (if cuisines tasteAttributes \<noteq> []
                then addMatches text 30 (cuisines tasteAttributes) s0 else s0);
          s2 = (if foodTypes tasteAttributes \<noteq> []
                then addMatches text 25 (foodTypes tasteAttributes) s1 else s1);
          s3 = (if prepMethods tasteAttributes \<noteq> []
                then addMatches text 15 (prepMethods tasteAttributes) s2 else s2);
          s4 = (if ingredients_taste tasteAttributes \<noteq> []
                then addMatches text 10 (ingredients_taste tasteAttributes) s3 else s3);
          s5 = (if healthGoals tasteAttributes \<noteq> []
                then s4
                     + (if strIncludes text ''low fat'' \<or> strIncludes text ''healthy''
                        then 5 else 0)
                     + (if strIncludes text ''high protein'' then 5 else 0)
                     + (if strIncludes text ''low sodium'' then 5 else 0)
                else s4);
          s6 = (if allergies userPreferences \<noteq> []
                then foldl (\<lambda>s allergen.
                              if strIncludes text (toLowerCase allergen) then s - 1000 else s)
                       s5 (allergies userPreferences)
                else s5);
          s7 = (if dietaryRestrictions userPreferences \<noteq> []
                then (let hasDietary =
                            list_ex (\<lambda>d. strIncludes text (toLowerCase d))
                              (dietaryRestrictions userPreferences)
                      in if dietaryRestrictions userPreferences \<noteq> [] \<and> \<not> hasDietary
                         then s6 - 100 else s6)
                else s6)
      in s7)"

definition scoreMealAgainstTaste ::
    "menu_item \<Rightarrow> taste_attributes \<Rightarrow> user_preferences \<Rightarrow> int" where
  "scoreMealAgainstTaste mealItem tasteAttributes userPreferences =
     max 0 (rawScore mealItem tasteAttributes userPreferences)"

section \<open>Restaurant-level aggregation\<close>

text \<open>
  A restaurant with the fields \<open>calculateRestaurantMatchScore\<close> reads (\<open>name\<close> of the
  source is \<open>name_restaurant\<close> here).  A missing \<open>dietaryOptions\<close> is the empty list
  (\<open>|| []\<close>); a missing \<open>rating\<close> is \<open>None\<close>.

  A scored meal is what the search handler builds from a filtered item: the item with
  \<open>score: scoreMealAgainstTaste(item, ...)\<close>.  That score is an integer and, by
  \<open>Math.max(0, score)\<close>, never negative, so the field is a natural number.
\<close>

record restaurant =
  name_restaurant :: string
  dietaryOptions :: "string list"
  rating :: "rat option"

record scored_meal =
  meal :: menu_item
  score :: nat

text \<open>The callback of \<open>filtered.map\<close> in the search handler, as far as the score goes.\<close>

definition toScoredMeal ::
    "taste_attributes \<Rightarrow> user_preferences \<Rightarrow> menu_item \<Rightarrow> scored_meal" where
  "toScoredMeal tasteAttributes userPreferences item =
     \<lparr> meal = item, score = nat (scoreMealAgainstTaste item tasteAttributes userPreferences) \<rparr>"

text \<open>\<open>Math.round\<close>: the nearest integer, a tie going up.\<close>

definition mathRound :: "rat \<Rightarrow> int" where
  "mathRound x = \<lfloor>x + 1 / 2\<rfloor>"

text \<open>
  \<open>calculateRestaurantMatchScore\<close>.  The running score is a rational number where
  the source has a double.  The two round to the same integer on every input of this
  type: the only term that is not an integer is \<open>topMealScore / 10\<close> for a top score
  below 400 (from 400 on the quotient is at least 40 in both and \<open>Math.min\<close> gives 40);
  there its fractional part is a multiple of one tenth, a half is exact in a double, and
  any other fraction is a tenth away from the next half, far more than the rounding
  error of a sum whose integer part is bounded by 50 times the length of an array.
\<close>

definition calculateRestaurantMatchScore ::
    "restaurant \<Rightarrow> taste_attributes \<Rightarrow> scored_meal list \<Rightarrow> int" where
  "calculateRestaurantMatchScore r tasteAttributes meals =
     (let restaurantText =
            toLowerCase (name_restaurant r @ '' '' @ join '' '' (dietaryOptions r));
          s0 = (0 :: rat);
          s1 = (if cuisines tasteAttributes \<noteq> []
                then foldl (\<lambda>s cuisine. if strIncludes restaurantText cuisine then s + 30 else s)
                       s0 (cuisines tasteAttributes)
                else s0);
          s2 = (case meals of
                  [] \<Rightarrow> s1
                | topMeal # _ \<Rightarrow> s1 + min (of_nat (score topMeal) / 10) 40);
          s3 = (if dietary tasteAttributes \<noteq> []
                then foldl (\<lambda>s diet. if strIncludes restaurantText diet then s + 20 else s)
                       s2 (dietary tasteAttributes)
                else s2);
          s4 = (case rating r of
                  None \<Rightarrow> s3
                | Some stars \<Rightarrow> if stars \<noteq> 0 \<and> stars > 4 then s3 + 10 else s3)
      in mathRound s4)"

section \<open>The statements of the specification\<close>

text \<open>Two tags are the same up to letter case.\<close>

definition ciEqual :: "string \<Rightarrow> string \<Rightarrow> bool" where
  "ciEqual a b = (toLowerCase a = toLowerCase b)"

text \<open>The item's dietary-label list contains the label, up to letter case.\<close>

definition carriesLabel :: "menu_item \<Rightarrow> string \<Rightarrow> bool" where
  "carriesLabel item label = list_ex (\<lambda>l. ciEqual l label) (dietary_labels item)"

text \<open>
  Satisfaction of a required dietary tag in the words of the specification: the label is
  there directly, or the tag is vegetarian and the item is vegan, or the tag is
  pescetarian and the item is vegan or vegetarian.
\<close>

definition tagSatisfied :: "menu_item \<Rightarrow> string \<Rightarrow> bool" where
  "tagSatisfied item tag =
     (carriesLabel item tag \<or>
      (ciEqual tag ''vegetarian'' \<and> carriesLabel item ''vegan'') \<or>
      (ciEqual tag ''pescetarian'' \<and>
         (carriesLabel item ''vegan'' \<or> carriesLabel item ''vegetarian'')))"


text \<open>
  The trigger phrases a table lists for a tag, and whether one of them occurs in the
  lower-cased query.
\<close>

definition triggerPhrases :: "taxonomy \<Rightarrow> string \<Rightarrow> string list" where
  "triggerPhrases table tag = concat (map snd (filter (\<lambda>entry. fst entry = tag) table))"

definition triggered :: "taxonomy \<Rightarrow> string \<Rightarrow> string \<Rightarrow> bool" where
  "triggered table tag q =
     list_ex (\<lambda>phrase. strIncludes (toLowerCase q) phrase) (triggerPhrases table tag)"

text \<open>The word is a trigger phrase of some tag of some table of the taxonomy.\<close>

definition isTrigger :: "string \<Rightarrow> bool" where
  "isTrigger w =
     list_ex (\<lambda>table. list_ex (\<lambda>entry. w \<in> set (snd entry)) table)
       [CUISINE_KEYWORDS, HEAT_KEYWORDS, DIETARY_KEYWORDS, HEALTH_GOALS_KEYWORDS,
        FOOD_TYPE_KEYWORDS, PREP_KEYWORDS]"

text \<open>The tags of a table.\<close>

definition tagsOf :: "taxonomy \<Rightarrow> string set" where
  "tagsOf table = set (map fst table)"

text \<open>The number of requested tags that occur in a text.\<close>

definition matchCount :: "string \<Rightarrow> string list \<Rightarrow> nat" where
  "matchCount text tags = length (filter (\<lambda>tag. strIncludes text tag) tags)"

text \<open>The lower-cased restaurant name followed by its dietary options.\<close>

definition restaurantText :: "restaurant \<Rightarrow> string" where
  "restaurantText r = toLowerCase (name_restaurant r @ '' '' @ join '' '' (dietaryOptions r))"

subsection \<open>Concrete inputs\<close>

definition spicyVeggieTaco :: menu_item where
  "spicyVeggieTaco =
     \<lparr> name = ''Spicy Veggie Taco'', description = [], ingredients = [], allergens = [],
       dietary_labels = [''vegetarian''], available = True \<rparr>"

definition soyTaco :: menu_item where
  "soyTaco =
     \<lparr> name = ''Soy Chorizo Taco'', description = ''Vegan taco'', ingredients = [''soy''],
       allergens = [''Soy''], dietary_labels = [''Vegan''], available = True \<rparr>"

definition noPreferences :: user_preferences where
  "noPreferences = \<lparr> allergies = [], dietaryRestrictions = [] \<rparr>"

definition tacoAttributes :: taste_attributes where
  "tacoAttributes =
     \<lparr> cuisines = [''mexican''], heat = ''spicy'', dietary = [''vegetarian''], healthGoals = [],
       foodTypes = [''tacos''], prepMethods = [], ingredients_taste = [], restrictions = [],
       confidence = 1 / 2 \<rparr>"

definition tacoAndVeganPreferences :: user_preferences where
  "tacoAndVeganPreferences = \<lparr> allergies = [''Taco''], dietaryRestrictions = [''vegan''] \<rparr>"


definition thailandQuery :: string where
  "thailandQuery = ''Spicy  Thailand noodles and not spicy with tofu ''"

definition tacoGrill :: restaurant where
  "tacoGrill =
     \<lparr> name_restaurant = ''Taco Mexican Grill'', dietaryOptions = [''Vegetarian'', ''Mexican''],
       rating = Some (9 / 2) \<rparr>"

definition tacoGrillMeals :: "scored_meal list" where
  "tacoGrillMeals = [\<lparr> meal = soyTaco, score = 95 \<rparr>, \<lparr> meal = spicyVeggieTaco, score = 40 \<rparr>]"

section \<open>Facts about the string functions\<close>

lemma startsWith_iff: "startsWith s k \<longleftrightarrow> (\<exists>rest. s = k @ rest)"
  by (induction s k rule: startsWith.induct) auto

lemma strIncludes_iff: "strIncludes s k \<longleftrightarrow> (\<exists>before rest. s = before @ k @ rest)"
proof (induction s)
  case Nil
  show ?case by simp
next
  case (Cons c cs)
  show ?case
  proof
    assume "strIncludes (c # cs) k"
    then consider "startsWith (c # cs) k" | "strIncludes cs k" by auto
    then show "\<exists>before rest. c # cs = before @ k @ rest"
    proof cases
      case 1
      then obtain rest where "c # cs = k @ rest" using startsWith_iff by blast
      then have "c # cs = [] @ k @ rest" by simp
      then show ?thesis by blast
    next
      case 2
      with Cons.IH obtain before rest where "cs = before @ k @ rest" by blast
      then have "c # cs = (c # before) @ k @ rest" by simp
      then show ?thesis by blast
    qed
  next
    assume "\<exists>before rest. c # cs = before @ k @ rest"
    then obtain before rest where eq: "c # cs = before @ k @ rest" by blast
    show "strIncludes (c # cs) k"
    proof (cases before)
      case Nil
      with eq have "startsWith (c # cs) k" using startsWith_iff by auto
      then show ?thesis by simp
    next
      case (Cons b bs)
      with eq have "cs = bs @ k @ rest" by simp
      with Cons.IH have "strIncludes cs k" by blast
      then show ?thesis by simp
    qed
  qed
qed

lemma lower_vegan: "toLowerCase ''vegan'' = ''vegan''"
  by code_simp

lemma lower_vegetarian: "toLowerCase ''vegetarian'' = ''vegetarian''"
  by code_simp

lemma lower_pescetarian: "toLowerCase ''pescetarian'' = ''pescetarian''"
  by code_simp

section \<open>Properties of the preference filter\<close>

lemma keepItem_iff:
  "keepItem userAllergens required item \<longleftrightarrow>
     \<not> (userAllergens \<noteq> [] \<and>
        list_ex (\<lambda>a. toLowerCase a \<in> set (map toLowerCase (allergens item))) userAllergens) \<and>
     \<not> (required \<noteq> [] \<and>
        \<not> list_all (meetsRestriction (map toLowerCase (dietary_labels item))) required) \<and>
     available item"
  by (simp add: keepItem_def)

lemma lowered_label_iff:
  "toLowerCase label \<in> set (map toLowerCase (dietary_labels item)) \<longleftrightarrow> carriesLabel item label"
proof -
  have "toLowerCase label \<in> toLowerCase ` set (dietary_labels item) \<longleftrightarrow>
      (\<exists>l \<in> set (dietary_labels item). toLowerCase l = toLowerCase label)"
    by (metis (no_types) image_iff)
  then show ?thesis
    by (simp add: carriesLabel_def ciEqual_def list_ex_iff)
qed

lemma meetsRestriction_iff:
  "meetsRestriction (map toLowerCase (dietary_labels item)) tag \<longleftrightarrow> tagSatisfied item tag"
proof -
  have vegan: "''vegan'' \<in> set (map toLowerCase (dietary_labels item)) \<longleftrightarrow>
      carriesLabel item ''vegan''"
    using lowered_label_iff [of "''vegan''" item] by (simp only: lower_vegan)
  have vegetarian: "''vegetarian'' \<in> set (map toLowerCase (dietary_labels item)) \<longleftrightarrow>
      carriesLabel item ''vegetarian''"
    using lowered_label_iff [of "''vegetarian''" item] by (simp only: lower_vegetarian)
  have direct: "toLowerCase tag \<in> set (map toLowerCase (dietary_labels item)) \<longleftrightarrow>
      carriesLabel item tag"
    by (rule lowered_label_iff)
  have t1: "toLowerCase tag = ''vegetarian'' \<longleftrightarrow> ciEqual tag ''vegetarian''"
    by (simp add: ciEqual_def lower_vegetarian)
  have t2: "toLowerCase tag = ''pescetarian'' \<longleftrightarrow> ciEqual tag ''pescetarian''"
    by (simp add: ciEqual_def lower_pescetarian)
  show ?thesis
    unfolding meetsRestriction_def tagSatisfied_def Let_def
    by (simp only: vegan vegetarian direct t1 t2) auto
qed

text \<open>
  C1. Whatever the menu and the required dietary tags, with a non-empty list of
  configured allergens an item that declares an allergen equal, up to letter case, to a
  configured one is not in the output of the filter.
\<close>

theorem filter_excludes_allergen:
  assumes "userAllergens \<noteq> []"
    and "a \<in> set userAllergens"
    and "b \<in> set (allergens item)"
    and "ciEqual a b"
  shows "item \<notin> set (filterItemsByPreferences items userAllergens required)"
proof -
  have "list_ex (\<lambda>a. toLowerCase a \<in> set (map toLowerCase (allergens item))) userAllergens"
    unfolding list_ex_iff using assms(2-4) by (force simp: ciEqual_def)
  with assms(1) have "\<not> keepItem userAllergens required item"
    by (simp add: keepItem_iff)
  then show ?thesis
    by (simp add: filterItemsByPreferences_def)
qed

text \<open>
  The item \<open>soyTaco\<close> declares the allergen \<open>Soy\<close> and meets the required tag
  \<open>vegan\<close>; with the allergen \<open>soy\<close> configured it is filtered out.
\<close>

theorem filter_excludes_allergen_witness:
  "[''peanuts'', ''soy''] \<noteq> [] \<and> ''soy'' \<in> set [''peanuts'', ''soy''] \<and>
   ''Soy'' \<in> set (allergens soyTaco) \<and> ciEqual ''soy'' ''Soy'' \<and>
   tagSatisfied soyTaco ''vegan'' \<and>
   soyTaco \<notin> set (filterItemsByPreferences [spicyVeggieTaco, soyTaco]
                    [''peanuts'', ''soy''] [''vegan''])"
proof -
  have h1: "[''peanuts'', ''soy''] \<noteq> []" by simp
  have h2: "''soy'' \<in> set [''peanuts'', ''soy'']" by simp
  have h3: "''Soy'' \<in> set (allergens soyTaco)" by (simp add: soyTaco_def)
  have h4: "ciEqual ''soy'' ''Soy''" by code_simp
  have h5: "tagSatisfied soyTaco ''vegan''" by code_simp
  show ?thesis
    using filter_excludes_allergen [OF h1 h2 h3 h4, of "[spicyVeggieTaco, soyTaco]" "[''vegan'']"]
      h1 h2 h3 h4 h5 by blast
qed

text \<open>
  C3. With a non-empty list of required dietary tags, an item that the filter keeps
  satisfies every required tag: its labels contain the tag, or the tag is vegetarian and
  the item is labelled vegan, or the tag is pescetarian and the item is labelled vegan or
  vegetarian, all up to letter case.
\<close>

theorem filter_keeps_only_satisfying:
  assumes "required \<noteq> []"
    and "item \<in> set (filterItemsByPreferences items userAllergens required)"
  shows "\<forall>tag \<in> set required. tagSatisfied item tag"
proof -
  from assms(2) have "keepItem userAllergens required item"
    by (simp add: filterItemsByPreferences_def)
  with assms(1) have "list_all (meetsRestriction (map toLowerCase (dietary_labels item))) required"
    by (simp add: keepItem_iff)
  then show ?thesis
    by (simp add: list_all_iff meetsRestriction_iff)
qed

theorem filter_keeps_only_satisfying_witness:
  "[''Vegetarian'', ''pescetarian''] \<noteq> [] \<and>
   soyTaco \<in> set (filterItemsByPreferences [spicyVeggieTaco, soyTaco] [''peanuts'']
                    [''Vegetarian'', ''pescetarian'']) \<and>
   tagSatisfied soyTaco ''Vegetarian'' \<and> tagSatisfied soyTaco ''pescetarian''"
proof -
  have h1: "[''Vegetarian'', ''pescetarian''] \<noteq> []" by simp
  have h2: "soyTaco \<in> set (filterItemsByPreferences [spicyVeggieTaco, soyTaco] [''peanuts'']
                    [''Vegetarian'', ''pescetarian''])"
    by code_simp
  show ?thesis
    using filter_keeps_only_satisfying [OF h1 h2] h1 h2 by simp
qed

text \<open>
  C4 as stated fails: the item \<open>spicyVeggieTaco\<close> is available, its label list is
  exactly \<open>vegetarian\<close>, and with no allergens configured the filter keeps it for the
  required tag \<open>pescetarian\<close>.
\<close>

theorem vegetarian_passes_pescetarian_counterexample:
  "available spicyVeggieTaco \<and> dietary_labels spicyVeggieTaco = [''vegetarian''] \<and>
   \<not> carriesLabel spicyVeggieTaco ''vegan'' \<and>
   spicyVeggieTaco \<in> set (filterItemsByPreferences [spicyVeggieTaco] [] [''pescetarian''])"
  by code_simp

text \<open>
  C4, amended. An available item whose dietary-label list is exactly \<open>vegetarian\<close> is
  kept by the filter when the only required tag is \<open>pescetarian\<close> and no allergens are
  configured: the implication rule of \<open>filterItemsByPreferences\<close> accepts the label
  \<open>vegetarian\<close> as well as \<open>vegan\<close> for that tag.
\<close>

theorem vegetarian_passes_pescetarian:
  assumes "available item"
    and "dietary_labels item = [''vegetarian'']"
    and "item \<in> set items"
  shows "item \<in> set (filterItemsByPreferences items [] [''pescetarian''])"
proof -
  have "carriesLabel item ''vegetarian''"
    using assms(2) by (simp add: carriesLabel_def ciEqual_def)
  then have "tagSatisfied item ''pescetarian''"
    by (simp add: tagSatisfied_def ciEqual_def)
  then have "list_all (meetsRestriction (map toLowerCase (dietary_labels item))) [''pescetarian'']"
    by (simp add: meetsRestriction_iff)
  with assms(1) have "keepItem [] [''pescetarian''] item"
    by (simp add: keepItem_iff)
  with assms(3) show ?thesis
    by (simp add: filterItemsByPreferences_def)
qed

theorem vegetarian_passes_pescetarian_witness:
  "available spicyVeggieTaco \<and> dietary_labels spicyVeggieTaco = [''vegetarian''] \<and>
   spicyVeggieTaco \<in> set [soyTaco, spicyVeggieTaco] \<and>
   spicyVeggieTaco \<in> set (filterItemsByPreferences [soyTaco, spicyVeggieTaco] [] [''pescetarian''])"
proof -
  have h1: "available spicyVeggieTaco" by (simp add: spicyVeggieTaco_def)
  have h2: "dietary_labels spicyVeggieTaco = [''vegetarian'']" by (simp add: spicyVeggieTaco_def)
  have h3: "spicyVeggieTaco \<in> set [soyTaco, spicyVeggieTaco]" by simp
  show ?thesis
    using vegetarian_passes_pescetarian [OF h1 h2 h3] h1 h2 h3 by simp
qed

section \<open>Properties of the relevance scorer\<close>

text \<open>
  C2. For every menu item, taste attributes and user preferences the score is at least
  0; where the sum of the signals and penalties is negative the score is 0.
\<close>

theorem score_floor:
  "0 \<le> scoreMealAgainstTaste mealItem tasteAttributes userPreferences \<and>
   (rawScore mealItem tasteAttributes userPreferences < 0 \<longrightarrow>
      scoreMealAgainstTaste mealItem tasteAttributes userPreferences = 0)"
  by (simp add: scoreMealAgainstTaste_def)

text \<open>
  With the allergen \<open>Taco\<close> and the restriction \<open>vegan\<close> both penalties apply to
  \<open>spicyVeggieTaco\<close>: the sum is \<open>-1100\<close> and the score is 0.
\<close>

theorem score_floor_witness:
  "rawScore spicyVeggieTaco tacoAttributes tacoAndVeganPreferences = - 1100 \<and>
   0 \<le> scoreMealAgainstTaste spicyVeggieTaco tacoAttributes tacoAndVeganPreferences \<and>
   scoreMealAgainstTaste spicyVeggieTaco tacoAttributes tacoAndVeganPreferences = 0"
proof -
  have raw: "rawScore spicyVeggieTaco tacoAttributes tacoAndVeganPreferences = - 1100"
    by code_simp
  show ?thesis
    using score_floor [of spicyVeggieTaco tacoAttributes tacoAndVeganPreferences] raw by simp
qed

text \<open>
  C10. Two taste-attribute values that agree on the fields the scorer reads (cuisines,
  food types, preparation methods, ingredients and health goals), hence any two that
  differ in \<open>heat\<close> only, give the same score for every item and every user preference.
\<close>

theorem score_ignores_heat:
  assumes "cuisines t1 = cuisines t2"
    and "foodTypes t1 = foodTypes t2"
    and "prepMethods t1 = prepMethods t2"
    and "ingredients_taste t1 = ingredients_taste t2"
    and "healthGoals t1 = healthGoals t2"
  shows "scoreMealAgainstTaste mealItem t1 userPreferences =
         scoreMealAgainstTaste mealItem t2 userPreferences"
proof -
  have "rawScore mealItem t1 userPreferences = rawScore mealItem t2 userPreferences"
    unfolding rawScore_def by (simp only: assms)
  then show ?thesis
    by (simp only: scoreMealAgainstTaste_def)
qed

theorem score_ignores_heat_witness:
  "heat (tacoAttributes\<lparr>heat := ''mild''\<rparr>) \<noteq> heat tacoAttributes \<and>
   scoreMealAgainstTaste soyTaco (tacoAttributes\<lparr>heat := ''mild''\<rparr>) noPreferences =
   scoreMealAgainstTaste soyTaco tacoAttributes noPreferences \<and>
   scoreMealAgainstTaste soyTaco tacoAttributes noPreferences = 0"
proof -
  have h: "heat (tacoAttributes\<lparr>heat := ''mild''\<rparr>) \<noteq> heat tacoAttributes"
    by (simp add: tacoAttributes_def)
  have v: "scoreMealAgainstTaste soyTaco tacoAttributes noPreferences = 0"
    by code_simp
  show ?thesis
    using score_ignores_heat [of "tacoAttributes\<lparr>heat := ''mild''\<rparr>" tacoAttributes soyTaco
        noPreferences] h v
    by simp
qed

text \<open>
  C5 as stated fails: the keyword parser turns the query into the cuisine tag
  \<open>mexican\<close> and the food-type tag \<open>tacos\<close>, the scorer looks for these tags in the
  item text \<open>spicy veggie taco\<close>, finds neither, and the score is below 55.
\<close>

theorem taco_scenario_counterexample:
  "parseTasteQuery False (\<lambda>q. None) (Text ''spicy vegetarian tacos'') = Inr tacoAttributes \<and>
   \<not> 55 \<le> scoreMealAgainstTaste spicyVeggieTaco tacoAttributes noPreferences"
  by code_simp

text \<open>
  C5, amended. The item scored against the attributes parsed from
  \<open>spicy vegetarian tacos\<close>, with no user allergens and no dietary restrictions, has
  score 0: neither tag is a substring of the item text, no other signal applies, and no
  penalty applies (the sum before the floor is 0 as well).
\<close>

theorem taco_scenario:
  "parseTasteQuery False (\<lambda>q. None) (Text ''spicy vegetarian tacos'') = Inr tacoAttributes \<and>
   itemText spicyVeggieTaco = ''spicy veggie taco  '' \<and>
   \<not> strIncludes (itemText spicyVeggieTaco) ''mexican'' \<and>
   \<not> strIncludes (itemText spicyVeggieTaco) ''tacos'' \<and>
   rawScore spicyVeggieTaco tacoAttributes noPreferences = 0 \<and>
   scoreMealAgainstTaste spicyVeggieTaco tacoAttributes noPreferences = 0"
  by code_simp

section \<open>Properties of the query parser\<close>






text \<open>A truthy argument that is not a string is the one input on which the source throws.\<close>

lemma parseTasteQuery_NonString:
  "parseTasteQuery useLocalGemma parseWithGemma NonString = Inl TypeError"
  by (simp add: parseTasteQuery_def)



text \<open>
  C7. The heat of the keyword parser's result is decided by the categories in the order
  spicy, mild, medium: it is the first of them one of whose trigger phrases occurs in the
  lower-cased query, and \<open>none\<close> when there is no such category.  The field holds one
  value, one of the four.
\<close>

theorem heat_first_match:
  "map fst HEAT_KEYWORDS = [''spicy'', ''mild'', ''medium''] \<and>
   heat (parseWithKeywords q) =
     (if triggered HEAT_KEYWORDS ''spicy'' q then ''spicy''
      else if triggered HEAT_KEYWORDS ''mild'' q then ''mild''
      else if triggered HEAT_KEYWORDS ''medium'' q then ''medium''
      else ''none'') \<and>
   heat (parseWithKeywords q) \<in> {''spicy'', ''mild'', ''medium'', ''none''}"
proof -
  have order: "map fst HEAT_KEYWORDS = [''spicy'', ''mild'', ''medium'']"
    by (simp add: HEAT_KEYWORDS_def)
  have spicy: "triggered HEAT_KEYWORDS ''spicy'' q =
      someKeyword (toLowerCase q) (snd (HEAT_KEYWORDS ! 0))"
    by (simp add: triggered_def triggerPhrases_def someKeyword_def HEAT_KEYWORDS_def)
  have mild: "triggered HEAT_KEYWORDS ''mild'' q =
      someKeyword (toLowerCase q) (snd (HEAT_KEYWORDS ! 1))"
    by (simp add: triggered_def triggerPhrases_def someKeyword_def HEAT_KEYWORDS_def)
  have medium: "triggered HEAT_KEYWORDS ''medium'' q =
      someKeyword (toLowerCase q) (snd (HEAT_KEYWORDS ! 2))"
    by (simp add: triggered_def triggerPhrases_def someKeyword_def HEAT_KEYWORDS_def)
  have loop: "detectHeat HEAT_KEYWORDS query current =
      (if someKeyword query (snd (HEAT_KEYWORDS ! 0)) then ''spicy''
       else if someKeyword query (snd (HEAT_KEYWORDS ! 1)) then ''mild''
       else if someKeyword query (snd (HEAT_KEYWORDS ! 2)) then ''medium''
       else current)" for query current
    by (simp add: HEAT_KEYWORDS_def)
  have heat: "heat (parseWithKeywords q) =
     (if triggered HEAT_KEYWORDS ''spicy'' q then ''spicy''
      else if triggered HEAT_KEYWORDS ''mild'' q then ''mild''
      else if triggered HEAT_KEYWORDS ''medium'' q then ''medium''
      else ''none'')"
    by (simp only: spicy mild medium parseWithKeywords_def Let_def loop taste_attributes.simps)
  from heat have "heat (parseWithKeywords q) \<in> {''spicy'', ''mild'', ''medium'', ''none''}"
    by (simp only: insert_iff split: if_split) simp
  with order heat show ?thesis by (simp only: simp_thms)
qed

text \<open>
  In \<open>NOT SPICY\<close> a trigger of spicy (\<open>spicy\<close>) and a trigger of mild (\<open>not spicy\<close>)
  both occur; the first category in the order wins.
\<close>

theorem heat_first_match_witness:
  "triggered HEAT_KEYWORDS ''spicy'' ''NOT SPICY'' \<and>
   triggered HEAT_KEYWORDS ''mild'' ''NOT SPICY'' \<and>
   heat (parseWithKeywords ''NOT SPICY'') = ''spicy''"
proof -
  have h1: "triggered HEAT_KEYWORDS ''spicy'' ''NOT SPICY''" by code_simp
  have h2: "triggered HEAT_KEYWORDS ''mild'' ''NOT SPICY''" by code_simp
  show ?thesis
    using heat_first_match [of "''NOT SPICY''"] h1 h2 by simp
qed

lemma detectTags_subset: "set (detectTags table query) \<subseteq> tagsOf table"
  by (induction table query rule: detectTags.induct) (auto simp: tagsOf_def)

lemma allKeywords_iff: "w \<in> set allKeywords \<longleftrightarrow> isTrigger w"
  by (auto simp: allKeywords_def isTrigger_def list_ex_iff)

text \<open>The pieces of a split hold no white space, and together they are the other characters.\<close>

lemma splitRun_no_space:
  "\<forall>c \<in> set cur. \<not> isSpace c \<Longrightarrow> w \<in> set (splitRun inRun cur s) \<Longrightarrow> \<not> list_ex isSpace w"
proof (induction s arbitrary: inRun cur)
  case Nil
  then show ?case by (simp add: list_ex_iff)
next
  case (Cons c cs)
  show ?case
  proof (cases "isSpace c")
    case False
    with Cons.prems have "w \<in> set (splitRun False (c # cur) cs)"
      and "\<forall>x \<in> set (c # cur). \<not> isSpace x"
      by simp_all
    then show ?thesis using Cons.IH by blast
  next
    case True
    show ?thesis
    proof (cases inRun)
      case True
      with \<open>isSpace c\<close> Cons.prems have "w \<in> set (splitRun True cur cs)" by simp
      with Cons.prems(1) show ?thesis using Cons.IH by blast
    next
      case False
      with \<open>isSpace c\<close> Cons.prems have "w = rev cur \<or> w \<in> set (splitRun True [] cs)"
        by simp
      then show ?thesis
      proof
        assume "w = rev cur"
        with Cons.prems(1) show ?thesis by (simp add: list_ex_iff)
      next
        assume "w \<in> set (splitRun True [] cs)"
        moreover have "\<forall>x \<in> set ([] :: string). \<not> isSpace x" by simp
        ultimately show ?thesis using Cons.IH by blast
      qed
    qed
  qed
qed

lemma splitRun_concat:
  "concat (splitRun inRun cur s) = rev cur @ filter (\<lambda>c. \<not> isSpace c) s"
  by (induction s arbitrary: inRun cur) simp_all

lemma splitWhitespace_no_space: "w \<in> set (splitWhitespace s) \<Longrightarrow> \<not> list_ex isSpace w"
  unfolding splitWhitespace_def by (rule splitRun_no_space) simp_all

lemma splitWhitespace_concat: "concat (splitWhitespace s) = filter (\<lambda>c. \<not> isSpace c) s"
  by (simp add: splitWhitespace_def splitRun_concat)

text \<open>
  C8. The ingredients of the keyword parser's result are the white-space-separated
  pieces of the lower-cased query that are longer than two characters, are not a trigger
  phrase of any table and are neither \<open>and\<close> nor \<open>with\<close>, in their order and with
  repetitions.  So no ingredient is a trigger phrase, and each of the five tag lists
  holds tags of its own table only.
\<close>

theorem ingredients_are_unclassified_tokens:
  "ingredients_taste (parseWithKeywords q) =
     filter (\<lambda>w. 2 < length w \<and> \<not> isTrigger w \<and> w \<noteq> ''and'' \<and> w \<noteq> ''with'')
       (splitWhitespace (toLowerCase q)) \<and>
   (\<forall>w \<in> set (ingredients_taste (parseWithKeywords q)).
      \<not> isTrigger w \<and> 2 < length w \<and> w \<noteq> ''and'' \<and> w \<noteq> ''with'') \<and>
   set (cuisines (parseWithKeywords q)) \<subseteq> tagsOf CUISINE_KEYWORDS \<and>
   set (dietary (parseWithKeywords q)) \<subseteq> tagsOf DIETARY_KEYWORDS \<and>
   set (healthGoals (parseWithKeywords q)) \<subseteq> tagsOf HEALTH_GOALS_KEYWORDS \<and>
   set (foodTypes (parseWithKeywords q)) \<subseteq> tagsOf FOOD_TYPE_KEYWORDS \<and>
   set (prepMethods (parseWithKeywords q)) \<subseteq> tagsOf PREP_KEYWORDS"
proof -
  have tokens: "ingredients_taste (parseWithKeywords q) =
     filter (\<lambda>w. 2 < length w \<and> \<not> isTrigger w \<and> w \<noteq> ''and'' \<and> w \<noteq> ''with'')
       (splitWhitespace (toLowerCase q))"
    by (simp add: parseWithKeywords_def Let_def allKeywords_iff)
  have each: "\<forall>w \<in> set (ingredients_taste (parseWithKeywords q)).
      \<not> isTrigger w \<and> 2 < length w \<and> w \<noteq> ''and'' \<and> w \<noteq> ''with''"
    unfolding tokens by simp
  have tags: "set (cuisines (parseWithKeywords q)) \<subseteq> tagsOf CUISINE_KEYWORDS"
    "set (dietary (parseWithKeywords q)) \<subseteq> tagsOf DIETARY_KEYWORDS"
    "set (healthGoals (parseWithKeywords q)) \<subseteq> tagsOf HEALTH_GOALS_KEYWORDS"
    "set (foodTypes (parseWithKeywords q)) \<subseteq> tagsOf FOOD_TYPE_KEYWORDS"
    "set (prepMethods (parseWithKeywords q)) \<subseteq> tagsOf PREP_KEYWORDS"
    by (simp_all add: parseWithKeywords_def Let_def detectTags_subset)
  show ?thesis
    by (intro conjI) (fact tokens each tags)+
qed

text \<open>
  In \<open>thailandQuery\<close> the trigger \<open>thai\<close> is found inside \<open>thailand\<close>, which stays
  an ingredient because the word itself is no trigger phrase; \<open>spicy\<close> and \<open>noodles\<close>
  are trigger phrases and \<open>and\<close>, \<open>with\<close> are dropped.
\<close>

theorem ingredients_are_unclassified_tokens_witness:
  "splitWhitespace (toLowerCase thailandQuery) =
     [''spicy'', ''thailand'', ''noodles'', ''and'', ''not'', ''spicy'', ''with'', ''tofu'', []] \<and>
   ingredients_taste (parseWithKeywords thailandQuery) = [''thailand'', ''not'', ''tofu''] \<and>
   ''thailand'' \<in> set (ingredients_taste (parseWithKeywords thailandQuery)) \<and>
   \<not> isTrigger ''thailand'' \<and> 2 < length ''thailand'' \<and>
   cuisines (parseWithKeywords thailandQuery) = [''asian'', ''thai'']"
proof -
  have h1: "splitWhitespace (toLowerCase thailandQuery) =
     [''spicy'', ''thailand'', ''noodles'', ''and'', ''not'', ''spicy'', ''with'', ''tofu'', []]"
    by code_simp
  have h2: "ingredients_taste (parseWithKeywords thailandQuery) = [''thailand'', ''not'', ''tofu'']"
    by code_simp
  have h3: "cuisines (parseWithKeywords thailandQuery) = [''asian'', ''thai'']"
    by code_simp
  have h4: "''thailand'' \<in> set (ingredients_taste (parseWithKeywords thailandQuery))"
    by (simp add: h2)
  show ?thesis
    using ingredients_are_unclassified_tokens [of thailandQuery] h1 h2 h3 h4 by blast
qed

section \<open>Properties of the restaurant score\<close>

text \<open>The natural number a scored meal carries is the scorer's result, with nothing cut off.\<close>

lemma toScoredMeal_score:
  "int (score (toScoredMeal tasteAttributes userPreferences item)) =
     scoreMealAgainstTaste item tasteAttributes userPreferences"
  by (simp add: toScoredMeal_def scoreMealAgainstTaste_def)

lemma mathRound_nearest: "\<bar>of_int (mathRound x) - x\<bar> \<le> 1 / 2"
proof -
  have "of_int \<lfloor>x + 1 / 2\<rfloor> \<le> x + 1 / 2" and "x + 1 / 2 < of_int \<lfloor>x + 1 / 2\<rfloor> + 1"
    by linarith+
  then show ?thesis
    unfolding mathRound_def by linarith
qed

lemma mathRound_nonneg: "0 \<le> x \<Longrightarrow> 0 \<le> mathRound x"
  by (simp add: mathRound_def)

lemma foldl_matches:
  "foldl (\<lambda>s tag. if strIncludes text tag then s + k else s) a tags =
     a + k * of_nat (matchCount text tags)" for a k :: rat
  by (induction tags arbitrary: a) (simp_all add: matchCount_def algebra_simps)

lemma guarded_matches:
  "(if tags \<noteq> [] then foldl (\<lambda>s tag. if strIncludes text tag then s + k else s) a tags else a) =
     a + k * of_nat (matchCount text tags)" for a k :: rat
  by (cases tags) (simp_all add: foldl_matches, simp add: matchCount_def)

lemma top_of_sorted:
  assumes "sorted_wrt (\<lambda>a b. score b \<le> score a) (m # ms)"
  shows "Max (score ` set (m # ms)) = score m"
proof (rule Max_eqI)
  show "finite (score ` set (m # ms))" by simp
  show "score m \<in> score ` set (m # ms)" by simp
  fix y
  assume "y \<in> score ` set (m # ms)"
  with assms show "y \<le> score m" by auto
qed

text \<open>
  C9. For a list of scored meals in descending order of score, the restaurant score is
  the nearest integer to: 30 for each requested cuisine tag that occurs in the lower-cased
  restaurant name and dietary options, 20 for each requested dietary tag that occurs
  there, the top meal score divided by 10 and capped at 40 when there is a meal, and 10
  when the rating is above 4.  Meal scores are natural numbers, the range of the scorer;
  with them, the result is not negative when the rating is not.
\<close>

theorem restaurant_score:
  assumes "sorted_wrt (\<lambda>a b. score b \<le> score a) meals"
  shows "calculateRestaurantMatchScore r t meals =
           mathRound
             (30 * of_nat (matchCount (restaurantText r) (cuisines t)) +
              20 * of_nat (matchCount (restaurantText r) (dietary t)) +
              (if meals = [] then 0 else min (of_nat (Max (score ` set meals)) / 10) 40) +
              (if \<exists>stars. rating r = Some stars \<and> 4 < stars then 10 else 0)) \<and>
         ((\<forall>stars. rating r = Some stars \<longrightarrow> 0 \<le> stars) \<longrightarrow>
            0 \<le> calculateRestaurantMatchScore r t meals)"
proof -
  let ?text = "restaurantText r"
  let ?c = "30 * of_nat (matchCount ?text (cuisines t)) :: rat"
  let ?d = "20 * of_nat (matchCount ?text (dietary t)) :: rat"
  let ?m = "if meals = [] then 0 else min (of_nat (Max (score ` set meals)) / 10) 40 :: rat"
  let ?b = "if \<exists>stars. rating r = Some stars \<and> 4 < stars then 10 else 0 :: rat"
  have top: "(case meals of [] \<Rightarrow> s | topMeal # _ \<Rightarrow> s + min (of_nat (score topMeal) / 10) 40) =
      s + ?m" for s :: rat
  proof (cases meals)
    case Nil
    then show ?thesis by simp
  next
    case (Cons m ms)
    with assms have "Max (score ` set meals) = score m"
      using top_of_sorted by blast
    with Cons show ?thesis by simp
  qed
  have boost: "(case rating r of None \<Rightarrow> s
      | Some stars \<Rightarrow> if stars \<noteq> 0 \<and> stars > 4 then s + 10 else s) = s + ?b" for s :: rat
    by (cases "rating r") auto
  have eq: "calculateRestaurantMatchScore r t meals = mathRound (?c + ?d + ?m + ?b)"
    unfolding calculateRestaurantMatchScore_def Let_def restaurantText_def [symmetric]
    by (simp only: guarded_matches top boost)
      (simp only: add.assoc add.commute add.left_commute add_0_left add_0_right)
  have nonneg: "0 \<le> calculateRestaurantMatchScore r t meals"
  proof -
    have "0 \<le> ?m" and "0 \<le> ?c" and "0 \<le> ?d" and "0 \<le> ?b" by simp_all
    then have "0 \<le> ?c + ?d + ?m + ?b" by linarith
    then show ?thesis unfolding eq by (rule mathRound_nonneg)
  qed
  show ?thesis
  proof (intro conjI impI)
    show "calculateRestaurantMatchScore r t meals = mathRound (?c + ?d + ?m + ?b)"
      by (rule eq)
  next
    show "0 \<le> calculateRestaurantMatchScore r t meals"
      by (rule nonneg)
  qed
qed

text \<open>
  For \<open>tacoGrill\<close> the cuisine tag gives 30, the dietary tag 20, the top meal
  \<open>95 / 10\<close> and the rating 10: the sum \<open>69.5\<close> rounds to 70.
\<close>

theorem restaurant_score_witness:
  "sorted_wrt (\<lambda>a b. score b \<le> score a) tacoGrillMeals \<and>
   matchCount (restaurantText tacoGrill) (cuisines tacoAttributes) = 1 \<and>
   matchCount (restaurantText tacoGrill) (dietary tacoAttributes) = 1 \<and>
   Max (score ` set tacoGrillMeals) = 95 \<and>
   rating tacoGrill = Some (9 / 2) \<and>
   calculateRestaurantMatchScore tacoGrill tacoAttributes tacoGrillMeals = 70 \<and>
   0 \<le> calculateRestaurantMatchScore tacoGrill tacoAttributes tacoGrillMeals"
proof -
  have h1: "sorted_wrt (\<lambda>a b. score b \<le> score a) tacoGrillMeals"
    by (simp add: tacoGrillMeals_def)
  have h2: "matchCount (restaurantText tacoGrill) (cuisines tacoAttributes) = 1"
    by code_simp
  have h3: "matchCount (restaurantText tacoGrill) (dietary tacoAttributes) = 1"
    by code_simp
  have h4: "Max (score ` set tacoGrillMeals) = 95"
    by (simp add: tacoGrillMeals_def)
  have h5: "rating tacoGrill = Some (9 / 2)"
    by (simp add: tacoGrill_def)
  have h6: "tacoGrillMeals \<noteq> []"
    by (simp add: tacoGrillMeals_def)
  have h8: "mathRound (30 * of_nat 1 + 20 * of_nat 1 + min (of_nat 95 / 10) 40 + 10) = 70"
    by (simp add: mathRound_def)
  have "(4 :: rat) < 9 / 2" by simp
  with h5 have h9: "\<exists>stars. rating tacoGrill = Some stars \<and> 4 < stars"
    by blast
  have h10: "\<forall>stars. rating tacoGrill = Some stars \<longrightarrow> 0 \<le> stars"
    by (simp add: tacoGrill_def)
  note main = restaurant_score [OF h1, of tacoGrill tacoAttributes]
  from main have "calculateRestaurantMatchScore tacoGrill tacoAttributes tacoGrillMeals =
      mathRound (30 * of_nat 1 + 20 * of_nat 1 + min (of_nat 95 / 10) 40 + 10)"
    by (simp only: h2 h3 h4 h6 h9 if_True if_False)
  then have result: "calculateRestaurantMatchScore tacoGrill tacoAttributes tacoGrillMeals = 70"
    by (simp only: h8)
  from main have "(\<forall>stars. rating tacoGrill = Some stars \<longrightarrow> 0 \<le> stars) \<longrightarrow>
      0 \<le> calculateRestaurantMatchScore tacoGrill tacoAttributes tacoGrillMeals"
    by (rule conjunct2)
  with h10
  have nonneg: "0 \<le> calculateRestaurantMatchScore tacoGrill tacoAttributes tacoGrillMeals"
    by (simp only: simp_thms)
  show ?thesis
    by (intro conjI) (fact h1 h2 h3 h4 h5 result nonneg)+
qed

end
